theory Spec2Isabelle
  imports Complex_Main "HOL-Library.Word" "HOL-Library.Multiset"
begin

unbundle bit_operations_syntax

section \<open>clock.py: configuration constants\<close>

text \<open>
  \<^verbatim>\<open>RESET_TOKEN = "\<section>RESET\<section>"\<close>: the two section signs are the code point 0xA7.
  A Python string is modelled as a \<^typ>\<open>string\<close>, a token as a string.
\<close>

definition RESET_TOKEN :: string where
  "RESET_TOKEN = CHR 0xA7 # ''RESET'' @ [CHR 0xA7]"

definition MOUSE_STEP_DEFAULT :: int where
  "MOUSE_STEP_DEFAULT = 24"

definition MOUSE_ACCEL_DEFAULT :: int where
  "MOUSE_ACCEL_DEFAULT = 4"

definition MOUSE_MAX_STEP_DEFAULT :: int where
  "MOUSE_MAX_STEP_DEFAULT = 96"

definition MOUSE_DOMINANCE_DEFAULT :: int where
  "MOUSE_DOMINANCE_DEFAULT = 60"

definition KEY_DOMINANCE_DEFAULT :: int where
  "KEY_DOMINANCE_DEFAULT = 40"

definition ACTIVE_STATES :: "string set" where
  "ACTIVE_STATES = {''online'', ''idle'', ''dnd'', ''mobile''}"

section \<open>Exceptions\<close>

text \<open>
  The exceptions of the modelled code: \<^verbatim>\<open>bytes(...)\<close> on a value outside
  \<^verbatim>\<open>range(256)\<close> raises ValueError, a list index out of range raises IndexError, and a
  call into the input libraries (pyautogui, keyboard) may raise an exception (a subclass of
  \<^verbatim>\<open>Exception\<close>) of any class, named by its class name. The truth test of a value
  (its \<^verbatim>\<open>__bool__\<close> or \<^verbatim>\<open>__len__\<close>) may raise an exception of any class as well.
\<close>

datatype error = ValueError | IndexError | LibraryError string | TruthTestError string

text \<open>Sequencing of two computations that may raise.\<close>

definition and_then :: "error + 'a \<Rightarrow> ('a \<Rightarrow> error + 'b) \<Rightarrow> error + 'b" where
  "and_then m f = (case m of Inl e \<Rightarrow> Inl e | Inr x \<Rightarrow> f x)"

text \<open>\<^verbatim>\<open>xs[i]\<close> for an index \<^verbatim>\<open>i >= 0\<close>.\<close>

definition getitem :: "'a list \<Rightarrow> nat \<Rightarrow> error + 'a" where
  "getitem xs i = (if i < length xs then Inr (xs ! i) else Inl IndexError)"

section \<open>Token table\<close>

text \<open>\<^verbatim>\<open>list(s)\<close> of a string: one one-character string per character.\<close>

definition list_of_str :: "string \<Rightarrow> string list" where
  "list_of_str s = map (\<lambda>c. [c]) s"

definition base_symbols :: "string list" where
  "base_symbols =
     list_of_str ''ABCDEFGHIJKLMNOPQRSTUVWXYZ'' @
     list_of_str ''abcdefghijklmnopqrstuvwxyz'' @
     list_of_str ''0123456789'' @
     list_of_str ''!@#$%^&*()-_=+[]{};:,<.>/?''"

text \<open>
  \<^verbatim>\<open>while len(base) < 64: base += base\<close>. On an empty list the loop never ends, so the
  loop is a partial function and not returning is the value \<open>None\<close>.
\<close>

partial_function (option) grow :: "string list \<Rightarrow> string list option" where
  "grow base = (if length base < 64 then grow (base @ base) else Some base)"

declare grow.simps [code]

text \<open>
  \<^verbatim>\<open>random.Random().shuffle(x)\<close> is CPython's
  \<^verbatim>\<open>for i in reversed(range(1, len(x))): j = randbelow(i + 1); x[i], x[j] = x[j], x[i]\<close>.
  The random source is the parameter \<open>rnd\<close>: \<open>rnd i\<close> is the random integer drawn at
  loop index \<open>i\<close>, and \<^verbatim>\<open>randbelow(i + 1)\<close> is its residue in \<open>[0, i]\<close>.
\<close>

fun shuffle_loop :: "(nat \<Rightarrow> nat) \<Rightarrow> nat \<Rightarrow> 'a list \<Rightarrow> 'a list" where
  "shuffle_loop rnd 0 x = x"
| "shuffle_loop rnd (Suc i) x =
     (let j = rnd (Suc i) mod (Suc i + 1)
      in shuffle_loop rnd i (x[Suc i := x ! j, j := x ! Suc i]))"

definition shuffle :: "(nat \<Rightarrow> nat) \<Rightarrow> 'a list \<Rightarrow> 'a list" where
  "shuffle rnd x = shuffle_loop rnd (length x - 1) x"

text \<open>
  \<^verbatim>\<open>if RESET_TOKEN not in base: base[0] = RESET_TOKEN\<close>. Where it is executed the list
  has 64 entries (the loop before it ends only on a list of at least 64), so index 0 is
  in range and the assignment is a list update.
\<close>

definition force_reset :: "string list \<Rightarrow> string list" where
  "force_reset base = (if RESET_TOKEN \<notin> set base then base[0 := RESET_TOKEN] else base)"

text \<open>
  \<^verbatim>\<open>make_token_table()\<close>. The module constant \<^verbatim>\<open>RANDOMIZE_TOKEN_TABLE_ON_START\<close>
  (True in the source) is the parameter \<open>randomize\<close>.
\<close>

definition make_token_table :: "bool \<Rightarrow> (nat \<Rightarrow> nat) \<Rightarrow> string list option" where
  "make_token_table randomize rnd =
     (case grow base_symbols of
        None \<Rightarrow> None
      | Some grown \<Rightarrow>
          (let base = force_reset (take 64 grown)
           in Some (if randomize then force_reset (shuffle rnd base) else base)))"

section \<open>Drift clock\<close>

text \<open>
  \<^verbatim>\<open>hashlib.sha256\<close> belongs to the Python standard library, not to this program: it is
  the parameter \<open>H\<close> of the model, a function from byte strings to 256-bit digests.
  \<^verbatim>\<open>digest()[0]\<close> is the first byte of the digest, its eight most significant bits.
\<close>

type_synonym sha256 = "8 word list \<Rightarrow> 256 word"

definition digest_byte0 :: "256 word \<Rightarrow> 8 word" where
  "digest_byte0 d = ucast (drop_bit 248 d)"

text \<open>
  \<^verbatim>\<open>sha_index(bits)\<close>: \<^verbatim>\<open>bytes(int(b) for b in bits)\<close> raises ValueError unless every
  entry is in \<^verbatim>\<open>range(256)\<close>.
\<close>

definition sha_index :: "sha256 \<Rightarrow> int list \<Rightarrow> error + nat" where
  "sha_index H bs =
     (if \<forall>b \<in> set bs. 0 \<le> b \<and> b < 256
      then Inr (unat (digest_byte0 (H (map word_of_int bs)) AND 0b111111))
      else Inl ValueError)"

record DriftClock =
  bits :: "int list"
  cycle_bits :: nat
  drift_range :: real
  reset_prob :: real
  drift :: real
  window_counter :: nat

text \<open>
  \<^verbatim>\<open>DriftClock.__init__\<close> and \<^verbatim>\<open>reset_params\<close>: \<^verbatim>\<open>max(1, int(cycle_bits))\<close> is at
  least 1, so the field is a natural number and \<^verbatim>\<open>bits[:cycle_bits]\<close>,
  \<^verbatim>\<open>bits[cycle_bits:]\<close> are \<open>take\<close> and \<open>drop\<close>.
\<close>

definition init_clock :: "int \<Rightarrow> real \<Rightarrow> real \<Rightarrow> DriftClock" where
  "init_clock cb dr rp =
     \<lparr>bits = [], cycle_bits = nat (max 1 cb), drift_range = dr, reset_prob = rp,
      drift = 0, window_counter = 0\<rparr>"

definition reset_params :: "int \<Rightarrow> real \<Rightarrow> real \<Rightarrow> DriftClock \<Rightarrow> DriftClock" where
  "reset_params cb dr rp self =
     self\<lparr>cycle_bits := nat (max 1 cb), drift_range := dr, reset_prob := rp\<rparr>"

text \<open>
  The values \<^verbatim>\<open>add_bit\<close> can be given: the parameter is annotated \<^verbatim>\<open>int\<close>, but Python
  does not enforce it, and the body applies the truth test to whatever it gets. A float
  is a finite number, an infinity or a NaN. A value of any other type (an instance of a
  user class or of a library type) is \<open>PyObject\<close>, which carries what the truth test of
  that value does: it raises an exception of a class (\<open>Inl\<close> of the class name, as the
  truth test of a numpy array of several elements raises ValueError) or it returns a
  truth value. A truth test that never returns is not modelled.
\<close>

datatype pyfloat = Finite real | PosInf | NegInf | NaN

datatype pyval =
    PyNone
  | PyBool bool
  | PyInt int
  | PyFloat pyfloat
  | PyStr string
  | PyBytes "8 word list"
  | PyList "pyval list"
  | PyTuple "pyval list"
  | PySet "pyval list"
  | PyDict "(pyval \<times> pyval) list"
  | PyObject "string + bool"

text \<open>
  Python's truth test \<^verbatim>\<open>bool(b)\<close>, which \<^verbatim>\<open>1 if b else 0\<close> applies: None, False, zero
  and the empty string, bytes, list, tuple, set and dictionary are falsy; every other
  built-in value, also an infinity and a NaN, is truthy.
\<close>

fun truth :: "pyval \<Rightarrow> error + bool" where
  "truth PyNone = Inr False"
| "truth (PyBool b) = Inr b"
| "truth (PyInt i) = Inr (i \<noteq> 0)"
| "truth (PyFloat x) = Inr (x \<noteq> Finite 0)"
| "truth (PyStr s) = Inr (s \<noteq> [])"
| "truth (PyBytes bs) = Inr (bs \<noteq> [])"
| "truth (PyList xs) = Inr (xs \<noteq> [])"
| "truth (PyTuple xs) = Inr (xs \<noteq> [])"
| "truth (PySet xs) = Inr (xs \<noteq> [])"
| "truth (PyDict kvs) = Inr (kvs \<noteq> [])"
| "truth (PyObject (Inl cls)) = Inl (TruthTestError cls)"
| "truth (PyObject (Inr t)) = Inr t"

text \<open>
  \<^verbatim>\<open>add_bit(b)\<close> is \<^verbatim>\<open>self.bits.append(1 if b else 0)\<close>: the truth test comes first, and
  when it raises nothing is appended and the exception leaves \<^verbatim>\<open>add_bit\<close>.
\<close>

definition add_bit :: "pyval \<Rightarrow> DriftClock \<Rightarrow> error + DriftClock" where
  "add_bit b self =
     and_then (truth b) (\<lambda>t. Inr (self\<lparr>bits := bits self @ [if t then 1 else 0]\<rparr>))"

definition full :: "DriftClock \<Rightarrow> bool" where
  "full self = (length (bits self) \<ge> cycle_bits self)"

text \<open>
  \<^verbatim>\<open>random.uniform(a, b)\<close> is \<^verbatim>\<open>a + (b - a) * random()\<close>; the draws of
  \<^verbatim>\<open>random()\<close> are inputs of the model.
\<close>

definition uniform :: "real \<Rightarrow> real \<Rightarrow> real \<Rightarrow> real" where
  "uniform a b rho = a + (b - a) * rho"

text \<open>
  \<^verbatim>\<open>DriftClock.emit\<close>, with the token table \<open>TOKENS\<close> and the two draws of
  \<^verbatim>\<open>random()\<close> as arguments: \<open>rho_drift\<close> for the drift, \<open>rho_reset\<close> for the reset.
  The message printed on a reset is not modelled.
\<close>

definition emit ::
  "string list \<Rightarrow> sha256 \<Rightarrow> real \<Rightarrow> real \<Rightarrow> DriftClock \<Rightarrow> error + (string \<times> DriftClock)" where
  "emit TOKENS H rho_drift rho_reset self =
     (let out = take (cycle_bits self) (bits self);
          self = self\<lparr>bits := drop (cycle_bits self) (bits self)\<rparr>
      in case sha_index H out of
           Inl e \<Rightarrow> Inl e
         | Inr idx \<Rightarrow>
             (case getitem TOKENS (idx mod 64) of
                Inl e \<Rightarrow> Inl e
              | Inr token \<Rightarrow>
                  (let self = self\<lparr>drift := drift self
                                 + uniform (- drift_range self) (drift_range self) rho_drift\<rparr>;
                       self = self\<lparr>drift := max (min (drift self) (drift_range self * 8))
                                                (- drift_range self * 8)\<rparr>;
                       self = (if token = RESET_TOKEN \<and> rho_reset < reset_prob self
                               then self\<lparr>bits := [], drift := 0\<rparr> else self);
                       self = self\<lparr>window_counter := window_counter self + 1\<rparr>
                   in Inr (token, self))))"

section \<open>Input actuators\<close>

text \<open>
  The calls into pyautogui and the keyboard module. What they do to the machine is outside
  the program: the machine is a state of an arbitrary type \<open>'w\<close>, and a driver says for each
  call whether it raises (\<open>Inl\<close> of the exception's class name) or returns the next state.
\<close>

datatype io_call =
    IoWrite string
  | IoPress string
  | IoPressAndRelease string
  | IoMoveTo int int
  | IoClick
  | IoRightClick
  | IoScroll int
  | IoHScroll int
  | IoMouseDown
  | IoMouseUp

record 'w driver =
  perform :: "io_call \<Rightarrow> 'w \<Rightarrow> string + 'w"
  position :: "'w \<Rightarrow> string + (int \<times> int)"
  kb_mod :: bool

definition io :: "'w driver \<Rightarrow> io_call \<Rightarrow> 'w \<Rightarrow> error + 'w" where
  "io drv c w = (case perform drv c w of Inl cls \<Rightarrow> Inl (LibraryError cls) | Inr w' \<Rightarrow> Inr w')"

definition io_position :: "'w driver \<Rightarrow> 'w \<Rightarrow> error + (int \<times> int)" where
  "io_position drv w =
     (case position drv w of Inl cls \<Rightarrow> Inl (LibraryError cls) | Inr p \<Rightarrow> Inr p)"

text \<open>\<^verbatim>\<open>str(n)\<close> of an integer, as the f-strings of the result tags format it.\<close>

fun str_nat :: "nat \<Rightarrow> string" where
  "str_nat n = (if n < 10 then [char_of (48 + n)]
                else str_nat (n div 10) @ [char_of (48 + n mod 10)])"

declare str_nat.simps [simp del]

definition str_int :: "int \<Rightarrow> string" where
  "str_int i = (if i < 0 then ''-'' @ str_nat (nat (- i)) else str_nat (nat i))"

text \<open>
  \<^verbatim>\<open>c.isprintable()\<close> of a one-character string, for the code points below 256 that a
  \<^typ>\<open>char\<close> holds: the control characters, the no-break space 0xA0 and the soft hyphen
  0xAD are not printable.
\<close>

definition isprintable :: "char \<Rightarrow> bool" where
  "isprintable c =
     (let n = of_char c :: nat
      in (32 \<le> n \<and> n \<le> 126) \<or> (161 \<le> n \<and> n \<noteq> 173))"

definition key_mapping :: "(string \<times> string) list" where
  "key_mapping =
     [(''page up'', ''pageup''), (''page down'', ''pagedown''), (''caps lock'', ''capslock''),
      (''left'', ''left''), (''right'', ''right''), (''up'', ''up''), (''down'', ''down''),
      (''ctrl'', ''ctrl''), (''alt'', ''alt''), (''shift'', ''shift''), (''enter'', ''enter''),
      (''backspace'', ''backspace''), (''tab'', ''tab''), (''home'', ''home''),
      (''end'', ''end''), (''insert'', ''insert''), (''delete'', ''delete''),
      (''space'', ''space''), (''esc'', ''esc'')]"

definition known_keys :: "string list" where
  "known_keys =
     [''f1'', ''f2'', ''f3'', ''f4'', ''f5'', ''f6'', ''f7'', ''f8'', ''f9'', ''f10'', ''f11'',
      ''f12'', ''pageup'', ''pagedown'', ''home'', ''end'', ''insert'', ''delete'', ''space'',
      ''left'', ''right'', ''up'', ''down'', ''enter'', ''tab'', ''backspace'', ''capslock'',
      ''ctrl'', ''alt'', ''shift'', ''esc'', ''-'', ''='', ''['', '']'', [CHR 0x5C], '';'',
      [CHR 0x27], '','', ''.'', ''/'']"

text \<open>
  \<^verbatim>\<open>key_press(key, key_delay, adminless)\<close>. The body is one \<^verbatim>\<open>try\<close> block whose
  \<^verbatim>\<open>except Exception as e\<close> returns the tag \<^verbatim>\<open>key-skip:<key>:<class name>\<close>;
  \<^verbatim>\<open>time.sleep\<close> has no effect on the state. The result is the tag and the machine state
  (unchanged when the library call raised).
\<close>

definition key_press :: "'w driver \<Rightarrow> string \<Rightarrow> real \<Rightarrow> bool \<Rightarrow> 'w \<Rightarrow> string \<times> 'w" where
  "key_press drv key key_delay adminless w =
     (let attempt =
            (if adminless \<or> \<not> kb_mod drv
             then (let k = (case map_of key_mapping key of Some v \<Rightarrow> v | None \<Rightarrow> key)
                   in and_then
                        (if length k = 1 \<and> isprintable (hd k) \<and> k \<notin> set known_keys
                         then io drv (IoWrite k) w
                         else if k \<in> set known_keys then io drv (IoPress k) w
                         else io drv (IoWrite k) w)
                        (\<lambda>w'. Inr (''key:'' @ k, w')))
             else and_then (io drv (IoPressAndRelease key) w)
                    (\<lambda>w'. Inr (''key:'' @ key, w')))
      in case attempt of
           Inr res \<Rightarrow> res
         | Inl e \<Rightarrow>
             (''key-skip:'' @ key @ '':'' @
                (case e of ValueError \<Rightarrow> ''ValueError'' | IndexError \<Rightarrow> ''IndexError''
                 | LibraryError cls \<Rightarrow> cls | TruthTestError cls \<Rightarrow> cls), w))"

text \<open>The mouse functions have no \<^verbatim>\<open>try\<close>: what the library raises, they raise.\<close>

definition mouse_move :: "'w driver \<Rightarrow> int \<Rightarrow> int \<Rightarrow> 'w \<Rightarrow> error + (string \<times> 'w)" where
  "mouse_move drv dx dy w =
     and_then (io_position drv w) (\<lambda>(x, y).
     and_then (io drv (IoMoveTo (x + dx) (y + dy)) w) (\<lambda>w'.
     Inr (''move('' @ str_int dx @ '','' @ str_int dy @ '')'', w')))"

definition mouse_click :: "'w driver \<Rightarrow> bool \<Rightarrow> bool \<Rightarrow> 'w \<Rightarrow> error + (string \<times> 'w)" where
  "mouse_click drv left dbl w =
     (if dbl \<and> left
      then and_then (io drv IoClick w) (\<lambda>w'.
           and_then (io drv IoClick w') (\<lambda>w''. Inr (''dblclick'', w'')))
      else if left then and_then (io drv IoClick w) (\<lambda>w'. Inr (''click'', w'))
      else and_then (io drv IoRightClick w) (\<lambda>w'. Inr (''rclick'', w')))"

definition mouse_wheel :: "'w driver \<Rightarrow> int \<Rightarrow> int \<Rightarrow> 'w \<Rightarrow> error + (string \<times> 'w)" where
  "mouse_wheel drv v h w =
     (if v \<noteq> 0 then and_then (io drv (IoScroll v) w) (\<lambda>w'. Inr (''scroll_v:'' @ str_int v, w'))
      else if h \<noteq> 0
      then and_then (io drv (IoHScroll h) w) (\<lambda>w'. Inr (''scroll_h:'' @ str_int h, w'))
      else Inr (''wheel:noop'', w))"

definition mouse_drag :: "'w driver \<Rightarrow> bool \<Rightarrow> 'w \<Rightarrow> error + (string \<times> 'w)" where
  "mouse_drag drv start w =
     (if start then and_then (io drv IoMouseDown w) (\<lambda>w'. Inr (''drag_start'', w'))
      else and_then (io drv IoMouseUp w) (\<lambda>w'. Inr (''drag_end'', w')))"

text \<open>The dictionaries, as association lists in insertion order.\<close>

definition MOUSE_DIR :: "(string \<times> (int \<times> int)) list" where
  "MOUSE_DIR =
     [(''up'', (0, -1)), (''down'', (0, 1)), (''left'', (-1, 0)), (''right'', (1, 0)),
      (''up_left'', (-1, -1)), (''up_right'', (1, -1)), (''down_left'', (-1, 1)),
      (''down_right'', (1, 1)), (''upward'', (0, -1))]"

definition MOUSE_TOKENS_CLICKS :: "(string \<times> string) list" where
  "MOUSE_TOKENS_CLICKS = [(''click'', ''L''), (''rclick'', ''R''), (''dblclick'', ''D'')]"

definition MOUSE_TOKENS_SCROLL :: "(string \<times> int) list" where
  "MOUSE_TOKENS_SCROLL =
     [(''scroll_up'', 1), (''scroll_down'', -1), (''scroll_left'', -1), (''scroll_right'', 1)]"

definition MOUSE_TOKENS_DRAG :: "(string \<times> string) list" where
  "MOUSE_TOKENS_DRAG = [(''drag_start'', ''S''), (''drag_end'', ''E'')]"

definition KEY_ACTIONS :: "string list" where
  "KEY_ACTIONS =
     [''w'', ''a'', ''s'', ''d'', ''space'', ''enter'', ''tab'', ''backspace'',
      ''left'', ''right'', ''up'', ''down'', ''ctrl'', ''alt'', ''shift'', ''esc'']"

section \<open>The window: settings, recent-bit history and the two timers\<close>

text \<open>The entries of the \<^verbatim>\<open>self.state\<close> dictionary that the action tick reads.\<close>

record Settings =
  mouse_step :: int
  mouse_accel :: int
  mouse_max :: int
  key_delay :: real
  adminless :: bool
  mouse_dom :: int
  key_dom :: int

text \<open>
  The fields of \<^verbatim>\<open>MiniUI\<close> that the timers use. \<open>watcher\<close> is \<open>None\<close> when there is no
  presence watcher and otherwise holds the watcher's current \<^verbatim>\<open>state\<close> string; \<open>clock\<close>
  is \<open>None\<close> when there is no drift clock.
\<close>

record MiniUI =
  state :: Settings
  watcher :: "string option"
  clock :: "DriftClock option"
  run_flag :: bool
  paused :: bool
  mode_index :: nat
  last_bits :: "int list"
  cur_step :: int
  last_emit_ts :: real
  keepalive_seconds :: real

definition mode_names :: "string list" where
  "mode_names = [''Mouse'', ''Keyboard'', ''Auto'']"

text \<open>
  What a timer shows: the signals it emits, in order. The token signals carry the parts of
  the formatted text: \<^verbatim>\<open>[cycle] <token>\<close>, \<^verbatim>\<open>[keepalive] <token>\<close> and, for the action
  tick, the token, the action token and the result tag.
\<close>

datatype signal =
    SigPresence string
  | SigDrift real
  | SigCycleToken string
  | SigKeepaliveToken string
  | SigActionToken string string string

text \<open>
  \<^verbatim>\<open>MiniUI._on_cycle_tick\<close> at wall-clock time \<open>now\<close>, with the draws \<open>rho_drift\<close>, \<open>rho_reset\<close>
  that \<^verbatim>\<open>emit\<close> uses when it is called.
\<close>

definition on_cycle_tick ::
  "string list \<Rightarrow> sha256 \<Rightarrow> real \<Rightarrow> real \<Rightarrow> real \<Rightarrow> MiniUI \<Rightarrow> error + (signal list \<times> MiniUI)" where
  "on_cycle_tick TOKENS H now rho_drift rho_reset self =
     (case (clock self, watcher self) of
        (Some c, Some wstate) \<Rightarrow>
          if \<not> run_flag self then Inr ([], self)
          else
            (let bit = (if wstate \<in> ACTIVE_STATES then 1 else 0)
             in and_then (if \<not> paused self then add_bit (PyInt bit) c else Inr c) (\<lambda>c.
             let lb = last_bits self @ [bit];
                 lb = (if length lb > 64 then tl lb else lb);
                 self = self\<lparr>clock := Some c, last_bits := lb\<rparr>
             in and_then
                  (if \<not> paused self \<and> full c
                   then and_then (emit TOKENS H rho_drift rho_reset c) (\<lambda>(token, c').
                          Inr ([SigDrift (drift c'), SigCycleToken token],
                               self\<lparr>clock := Some c', last_emit_ts := now\<rparr>, True))
                   else Inr ([], self, False))
                  (\<lambda>(sigs, self, emitted).
                     if \<not> emitted \<and> now - last_emit_ts self \<ge> keepalive_seconds self
                     then
                       (let seed = (if length (last_bits self) \<ge> 8 then last_bits self
                                    else replicate 8 0) @ [1, 0, 1, 0, 0, 1, 0, 1]
                        in and_then (sha_index H seed) (\<lambda>idx.
                           and_then (getitem TOKENS (idx mod 64)) (\<lambda>token.
                           Inr (SigPresence wstate # sigs @ [SigKeepaliveToken token],
                                self\<lparr>last_emit_ts := now\<rparr>))))
                     else Inr (SigPresence wstate # sigs, self))))
      | _ \<Rightarrow> Inr ([], self))"

text \<open>
  \<^verbatim>\<open>random.choice(seq)\<close> is \<^verbatim>\<open>seq[randbelow(len(seq))]\<close> and raises IndexError on an
  empty sequence; \<open>n\<close> is the random integer behind \<^verbatim>\<open>randbelow\<close>.
\<close>

definition choice :: "'a list \<Rightarrow> nat \<Rightarrow> error + 'a" where
  "choice xs n = (if xs = [] then Inl IndexError else Inr (xs ! (n mod length xs)))"

text \<open>
  The seed of the action tick, \<^verbatim>\<open>seed_bits + [1,0,1,0,0,1,0,1]\<close>: the hash input that
  selects the displayed token.
\<close>

definition action_seed :: "MiniUI \<Rightarrow> string \<Rightarrow> int list" where
  "action_seed self wstate =
     (let seed_bits = (if length (last_bits self) < 8
                       then (if wstate \<in> ACTIVE_STATES then replicate 8 1 else replicate 8 0)
                       else last_bits self)
      in seed_bits @ [1, 0, 1, 0, 0, 1, 0, 1])"

text \<open>
  The choice of the domain in the action tick (the variable \<^verbatim>\<open>action_domain\<close>); \<open>rho\<close> is
  the draw of \<^verbatim>\<open>random()\<close> behind \<^verbatim>\<open>random.uniform(0, m_dom + k_dom)\<close>.
\<close>

definition action_domain :: "string \<Rightarrow> int \<Rightarrow> int \<Rightarrow> real \<Rightarrow> string" where
  "action_domain mode m_dom k_dom rho =
     (if mode = ''Mouse'' then ''Mouse''
      else if mode = ''Keyboard'' then ''Keyboard''
      else if m_dom = 0 \<and> k_dom = 0 then ''Mouse''
      else if m_dom = 0 then ''Keyboard''
      else if k_dom = 0 then ''Mouse''
      else (let choice = uniform 0 (of_int (m_dom + k_dom)) rho
            in if choice < of_int m_dom then ''Mouse'' else ''Keyboard''))"

definition choose_mouse_action :: "string \<Rightarrow> real \<Rightarrow> nat \<Rightarrow> error + string" where
  "choose_mouse_action token r n =
     (if r < 0.60 then choice (map fst MOUSE_DIR) n
      else if r < 0.85 then choice (map fst MOUSE_TOKENS_CLICKS) n
      else if r < 0.95 then choice (map fst MOUSE_TOKENS_SCROLL) n
      else choice (map fst MOUSE_TOKENS_DRAG) n)"

definition choose_key_action :: "string \<Rightarrow> real \<Rightarrow> nat \<Rightarrow> error + string" where
  "choose_key_action token r n =
     (if r < 0.85 then choice KEY_ACTIONS n
      else Inr (if length token = 1 \<and> isprintable (hd token) then token else ''space''))"

text \<open>
  \<^verbatim>\<open>MiniUI._perform_mouse\<close>: the result tag, the window (its step size updated) and the
  machine, or the exception that a mouse function raised.
\<close>

definition perform_mouse ::
  "'w driver \<Rightarrow> string \<Rightarrow> MiniUI \<Rightarrow> 'w \<Rightarrow> error + (string \<times> MiniUI \<times> 'w)" where
  "perform_mouse drv action_token self w =
     (let ms = mouse_step (state self);
          accel = mouse_accel (state self);
          mmax = mouse_max (state self)
      in case map_of MOUSE_DIR action_token of
           Some (dx, dy) \<Rightarrow>
             (let self = self\<lparr>cur_step := min mmax (max ms (cur_step self + accel))\<rparr>
              in and_then (mouse_move drv (dx * cur_step self) (dy * cur_step self) w)
                   (\<lambda>(res, w'). Inr (res, self, w')))
         | None \<Rightarrow>
             (let self = self\<lparr>cur_step := ms\<rparr>;
                  rest =
                    (case map_of MOUSE_TOKENS_SCROLL action_token of
                       Some d \<Rightarrow>
                         (if action_token = ''scroll_up'' \<or> action_token = ''scroll_down''
                          then mouse_wheel drv (d * 400) 0 w
                          else mouse_wheel drv 0 (d * 400) w)
                     | None \<Rightarrow>
                         (if action_token \<in> set (map fst MOUSE_TOKENS_DRAG)
                          then mouse_drag drv (action_token = ''drag_start'') w
                          else Inr (''noop'', w)))
              in and_then
                   (case map_of MOUSE_TOKENS_CLICKS action_token of
                      Some kind \<Rightarrow>
                        (if kind = ''L'' then mouse_click drv True False w
                         else if kind = ''R'' then mouse_click drv False False w
                         else if kind = ''D'' then mouse_click drv True True w
                         else rest)
                    | None \<Rightarrow> rest)
                   (\<lambda>(res, w'). Inr (res, self, w'))))"

definition name_map :: "(string \<times> string) list" where
  "name_map =
     [(''space'', ''space''), (''enter'', ''enter''), (''tab'', ''tab''),
      (''backspace'', ''backspace''), (''left'', ''left''), (''right'', ''right''),
      (''up'', ''up''), (''down'', ''down''), (''ctrl'', ''ctrl''), (''alt'', ''alt''),
      (''shift'', ''shift''), (''esc'', ''esc'')]"

definition perform_key :: "'w driver \<Rightarrow> string \<Rightarrow> MiniUI \<Rightarrow> 'w \<Rightarrow> string \<times> 'w" where
  "perform_key drv action_token self w =
     (let kd = key_delay (state self);
          al = adminless (state self);
          key = action_token
      in case map_of name_map key of
           Some v \<Rightarrow> key_press drv v kd al w
         | None \<Rightarrow>
             (if length key = 1 \<and> isprintable (hd key) then key_press drv key kd al w
              else key_press drv ''space'' kd al w))"

text \<open>
  \<^verbatim>\<open>MiniUI._on_action_tick\<close>. The draws: \<open>rho_dom\<close> for the domain, \<open>rho_act\<close> and \<open>n\<close> for the
  action chooser. \<open>Inl\<close> is an exception that leaves the tick.
\<close>

definition on_action_tick ::
  "string list \<Rightarrow> sha256 \<Rightarrow> 'w driver \<Rightarrow> real \<Rightarrow> real \<Rightarrow> nat \<Rightarrow> MiniUI \<Rightarrow> 'w
     \<Rightarrow> error + (signal list \<times> MiniUI \<times> 'w)" where
  "on_action_tick TOKENS H drv rho_dom rho_act n self w =
     (case (clock self, watcher self) of
        (Some c, Some wstate) \<Rightarrow>
          if \<not> run_flag self then Inr ([], self, w)
          else if paused self then Inr ([], self, w)
          else
            and_then (sha_index H (action_seed self wstate)) (\<lambda>idx.
            and_then (getitem TOKENS (idx mod 64)) (\<lambda>token.
            and_then (getitem mode_names (mode_index self)) (\<lambda>mode.
            and_then
              (if action_domain mode (mouse_dom (state self)) (key_dom (state self)) rho_dom
                    = ''Mouse''
               then and_then (choose_mouse_action token rho_act n) (\<lambda>action_token.
                    and_then (perform_mouse drv action_token self w) (\<lambda>(result, self', w').
                    Inr (action_token, result, self', w')))
               else and_then (choose_key_action token rho_act n) (\<lambda>action_token.
                    (case perform_key drv action_token self w of
                       (result, w') \<Rightarrow> Inr (action_token, result, self, w'))))
              (\<lambda>(action_token, result, self', w').
                 Inr ([SigActionToken token action_token result, SigDrift (drift c)],
                      self', w')))))
      | _ \<Rightarrow> Inr ([], self, w))"

section \<open>Call sequences and sample inputs\<close>

text \<open>
  The operations a caller can apply to a drift clock, and a run of them from left to right
  that stops at the first exception: the run of a caller that does not catch it.
\<close>

datatype clock_op = AddBit pyval | Emit real real | ResetParams int real real

fun run_op :: "string list \<Rightarrow> sha256 \<Rightarrow> clock_op \<Rightarrow> DriftClock \<Rightarrow> error + DriftClock" where
  "run_op TOKENS H (AddBit v) self = add_bit v self"
| "run_op TOKENS H (Emit rho_drift rho_reset) self =
     map_sum id snd (emit TOKENS H rho_drift rho_reset self)"
| "run_op TOKENS H (ResetParams cb dr rp) self = Inr (reset_params cb dr rp self)"

fun run_ops :: "string list \<Rightarrow> sha256 \<Rightarrow> clock_op list \<Rightarrow> DriftClock \<Rightarrow> error + DriftClock" where
  "run_ops TOKENS H [] self = Inr self"
| "run_ops TOKENS H (op # ops) self = and_then (run_op TOKENS H op self) (run_ops TOKENS H ops)"


text \<open>
  Sample inputs for concrete instances of the theorems: the token table built without
  shuffling, a toy digest function (the sum of the bytes in the first digest byte) in the
  place of SHA-256, and a clock with window size 8 holding given bits.
\<close>

definition table0 :: "string list" where
  "table0 = force_reset (take 64 base_symbols)"

definition byte_sum_hash :: sha256 where
  "byte_sum_hash bs = push_bit 248 (sum_list (map ucast bs))"

definition clock0 :: "int list \<Rightarrow> DriftClock" where
  "clock0 bs = (init_clock 8 0.002 1)\<lparr>bits := bs\<rparr>"

text \<open>
  The default settings, a running session in Auto mode with an empty recent-bit history,
  and two drivers over a machine without state: one whose calls all succeed, one whose
  calls all raise PermissionError (as pyautogui does on Windows while the secure desktop
  is shown).
\<close>

definition settings0 :: Settings where
  "settings0 =
     \<lparr>mouse_step = MOUSE_STEP_DEFAULT, mouse_accel = MOUSE_ACCEL_DEFAULT,
      mouse_max = MOUSE_MAX_STEP_DEFAULT, key_delay = 0.03, adminless = True,
      mouse_dom = MOUSE_DOMINANCE_DEFAULT, key_dom = KEY_DOMINANCE_DEFAULT\<rparr>"

definition ui0 :: MiniUI where
  "ui0 =
     \<lparr>state = settings0, watcher = Some ''online'', clock = Some (clock0 []),
      run_flag = True, paused = False, mode_index = 2, last_bits = [],
      cur_step = MOUSE_STEP_DEFAULT, last_emit_ts = 0, keepalive_seconds = 12\<rparr>"

definition drv_ok :: "unit driver" where
  "drv_ok = \<lparr>perform = (\<lambda>c w. Inr w), position = (\<lambda>w. Inr (0, 0)), kb_mod = False\<rparr>"

definition drv_denied :: "unit driver" where
  "drv_denied =
     \<lparr>perform = (\<lambda>c w. Inl ''PermissionError''), position = (\<lambda>w. Inr (0, 0)),
      kb_mod = False\<rparr>"

section \<open>Properties of the token table\<close>

lemma length_base_symbols: "length base_symbols = 88"
  by (simp add: base_symbols_def list_of_str_def)

lemma grow_base_symbols: "grow base_symbols = Some base_symbols"
  by (subst grow.simps) (simp add: length_base_symbols)

text \<open>The loop ends only on a list of at least 64 entries.\<close>

lemma grow_length: "grow b = Some b' \<Longrightarrow> 64 \<le> length b'"
proof -
  assume g: "grow b = Some b'"
  have "64 \<le> length b'"
    by (rule grow.raw_induct [where P = "\<lambda>x y. 64 \<le> length y", OF _ g])
       (auto split: if_splits)
  then show ?thesis .
qed

text \<open>A shuffle permutes: it keeps the multiset of entries.\<close>

lemma mset_shuffle_loop: "i < length x \<Longrightarrow> mset (shuffle_loop rnd i x) = mset x"
proof (induction i arbitrary: x)
  case 0
  then show ?case by simp
next
  case (Suc i)
  let ?j = "rnd (Suc i) mod (Suc i + 1)"
  have "?j < Suc i + 1" by (rule mod_less_divisor) simp
  then have j: "?j < length x" using Suc.prems by linarith
  have "mset (x[Suc i := x ! ?j, ?j := x ! Suc i]) = mset x"
    using Suc.prems j by (simp add: mset_swap)
  moreover have "i < length (x[Suc i := x ! ?j, ?j := x ! Suc i])"
    using Suc.prems by simp
  ultimately show ?case using Suc.IH by (simp add: Let_def)
qed

lemma mset_shuffle: "mset (shuffle rnd x) = mset x"
  by (cases x) (simp_all add: shuffle_def mset_shuffle_loop)

lemma unshuffled_length: "length (force_reset (take 64 base_symbols)) = 64"
  by (simp add: force_reset_def length_base_symbols)

lemma unshuffled_count: "count_list (force_reset (take 64 base_symbols)) RESET_TOKEN = 1"
  by (simp add: force_reset_def base_symbols_def list_of_str_def RESET_TOKEN_def)

lemma force_reset_id: "RESET_TOKEN \<in> set xs \<Longrightarrow> force_reset xs = xs"
  by (simp add: force_reset_def)

lemma count_list_mset: "count_list xs x = count (mset xs) x"
  by (induction xs) simp_all

lemma make_token_table_mset:
  "\<exists>t. make_token_table randomize rnd = Some t
     \<and> mset t = mset (force_reset (take 64 base_symbols))"
proof -
  let ?b = "force_reset (take 64 base_symbols)"
  have "count (mset ?b) RESET_TOKEN = 1"
    using unshuffled_count by (simp add: count_list_mset)
  then have "count (mset (shuffle rnd ?b)) RESET_TOKEN = 1"
    by (simp add: mset_shuffle)
  then have "RESET_TOKEN \<in> set (shuffle rnd ?b)"
    by (metis count_eq_zero_iff set_mset_mset zero_neq_one)
  then have "force_reset (shuffle rnd ?b) = shuffle rnd ?b"
    by (rule force_reset_id)
  then show ?thesis
    by (simp add: make_token_table_def grow_base_symbols Let_def mset_shuffle)
qed

text \<open>
  Claim C8. With shuffling disabled or enabled, and whatever the random source, building
  the token table returns a table of exactly 64 entries (so every index in [0, 64) is a
  valid lookup), exactly one of which is the RESET sentinel; the other 63 are not.
\<close>

theorem make_token_table_shape:
  "\<exists>t. make_token_table randomize rnd = Some t \<and> length t = 64
     \<and> count_list t RESET_TOKEN = 1
     \<and> length (filter (\<lambda>s. s \<noteq> RESET_TOKEN) t) = 63"
proof -
  obtain t where t: "make_token_table randomize rnd = Some t"
    and m: "mset t = mset (force_reset (take 64 base_symbols))"
    using make_token_table_mset by blast
  have l: "length t = 64" using m unshuffled_length by (metis size_mset)
  have c: "count_list t RESET_TOKEN = 1"
    using m unshuffled_count by (simp add: count_list_mset)
  have "length (filter (\<lambda>s. s \<noteq> RESET_TOKEN) t) + count_list t RESET_TOKEN = length t"
    by (induction t) simp_all
  then have "length (filter (\<lambda>s. s \<noteq> RESET_TOKEN) t) = 63" using l c by simp
  then show ?thesis using t l c by simp
qed

lemma table0_length [simp]: "length table0 = 64"
  by (simp add: table0_def unshuffled_length)

lemma table0_nth0: "table0 ! 0 = RESET_TOKEN"
  by (simp add: table0_def force_reset_def base_symbols_def list_of_str_def RESET_TOKEN_def)

lemma table0_nth5: "table0 ! 5 = ''F''"
  by (simp add: table0_def force_reset_def base_symbols_def list_of_str_def RESET_TOKEN_def)

lemma table0_nth4: "table0 ! 4 = ''E''"
  by (simp add: table0_def force_reset_def base_symbols_def list_of_str_def RESET_TOKEN_def)

section \<open>Properties of the drift clock\<close>

lemma sha_index_ok:
  "\<forall>b \<in> set bs. 0 \<le> b \<and> b < 256 \<Longrightarrow>
   sha_index H bs = Inr (unat (digest_byte0 (H (map word_of_int bs)) AND 63))"
  by (simp add: sha_index_def)

lemma and63_less: "unat ((x :: 8 word) AND 63) < 64"
proof -
  have "x AND 63 \<le> 63" by (rule word_and_le1)
  then have "unat (x AND 63) \<le> unat (63 :: 8 word)" by (simp only: word_le_nat_alt)
  then show ?thesis by simp
qed

text \<open>The index is always inside the table: a hash index is below 64.\<close>

lemma sha_index_less: "sha_index H bs = Inr i \<Longrightarrow> i < 64"
  by (auto simp: sha_index_def and63_less split: if_splits)

lemma bits01_range:
  "set bs \<subseteq> {0, 1 :: int} \<Longrightarrow> \<forall>b \<in> set (take n bs). 0 \<le> b \<and> b < 256"
  by (auto dest!: in_set_takeD)

text \<open>
  On a table of 64 entries and a window of byte values, \<open>emit\<close> returns, and this is what
  it returns.
\<close>

lemma emit_ok:
  assumes T: "length TOKENS = 64"
    and w: "\<forall>b \<in> set (take (cycle_bits self) (bits self)). 0 \<le> b \<and> b < 256"
  shows "emit TOKENS H rho_drift rho_reset self =
    (let token = TOKENS ! unat (digest_byte0
                   (H (map word_of_int (take (cycle_bits self) (bits self)))) AND 63);
         d = max (min (drift self + uniform (- drift_range self) (drift_range self) rho_drift)
                      (drift_range self * 8)) (- drift_range self * 8);
         fire = (token = RESET_TOKEN \<and> rho_reset < reset_prob self)
     in Inr (token,
          self\<lparr>bits := (if fire then [] else drop (cycle_bits self) (bits self)),
               drift := (if fire then 0 else d),
               window_counter := window_counter self + 1\<rparr>))"
  using T and63_less [of "digest_byte0 (H (map word_of_int (take (cycle_bits self) (bits self))))"]
  by (simp add: emit_def sha_index_ok [OF w] getitem_def Let_def)

lemma clamp_abs: "0 \<le> (d::real) \<Longrightarrow> \<bar>max (min x (d * 8)) (- (d * 8))\<bar> \<le> 8 * d"
  by (simp add: max_def min_def abs_if)

text \<open>
  Claim C1. For a buffer that starts with a window \<open>w\<close> of \<open>cycle_bits\<close> bits, \<open>emit\<close>
  returns the entry of the token table at the index given by the low 6 bits of the first
  byte of the digest of \<open>w\<close>, hashed one byte per bit in bit order.
\<close>

theorem emit_token_of_window:
  assumes "length TOKENS = 64" and "set w \<subseteq> {0, 1}" and "length w = cycle_bits self"
    and "bits self = w @ rest"
  shows "map_sum id fst (emit TOKENS H rho_drift rho_reset self)
           = Inr (TOKENS ! unat (digest_byte0 (H (map word_of_int w)) AND 0b111111))"
proof -
  have tk: "take (cycle_bits self) (bits self) = w" using assms(3,4) by simp
  have "\<forall>b \<in> set (take (cycle_bits self) (bits self)). 0 \<le> b \<and> b < 256"
    unfolding tk using assms(2) by auto
  from emit_ok [OF assms(1) this] show ?thesis by (simp add: Let_def tk)
qed

theorem emit_token_of_window_witness:
  "map_sum id fst (emit table0 byte_sum_hash 0.5 0.5 (clock0 [1, 0, 1, 1, 0, 0, 1, 0, 1, 1]))
     = Inr ''E''"
  using emit_token_of_window [of table0 "[1, 0, 1, 1, 0, 0, 1, 0]"
      "clock0 [1, 0, 1, 1, 0, 0, 1, 0, 1, 1]" "[1, 1]" byte_sum_hash "0.5" "0.5"]
  by (simp add: clock0_def init_clock_def byte_sum_hash_def digest_byte0_def table0_nth4)

text \<open>
  Claim C4. For a drift range above zero, \<open>emit\<close> returns with a drift accumulator whose
  absolute value is at most 8 times the drift range, whatever the state it is called in
  (so after every sequence of calls) and whatever the random draws.
\<close>

theorem emit_drift_bounded:
  assumes "0 < drift_range self" and "length TOKENS = 64" and "set (bits self) \<subseteq> {0, 1}"
  shows "\<exists>token self'. emit TOKENS H rho_drift rho_reset self = Inr (token, self')
           \<and> \<bar>drift self'\<bar> \<le> 8 * drift_range self'"
  using assms(1)
  by (simp add: emit_ok [OF assms(2) bits01_range [OF assms(3)]] Let_def clamp_abs)

theorem emit_drift_bounded_witness:
  "\<exists>token self'.
      emit table0 byte_sum_hash 0.9 0.5 ((clock0 [1, 0, 1, 1, 0, 0, 1, 0])\<lparr>drift := 0.016\<rparr>)
        = Inr (token, self')
      \<and> \<bar>drift self'\<bar> \<le> 8 * drift_range self'"
  using emit_drift_bounded [of "(clock0 [1, 0, 1, 1, 0, 0, 1, 0])\<lparr>drift := 0.016\<rparr>"
      table0 byte_sum_hash "0.9" "0.5"]
  by (simp add: clock0_def init_clock_def)

text \<open>
  Claim C5. If \<open>emit\<close> returns the RESET token and the draw for the reset is below
  \<open>reset_prob\<close> (as every draw from [0, 1) is when \<open>reset_prob\<close> is 1), then after
  \<open>emit\<close> the bit buffer is empty and the drift is 0.
\<close>

theorem emit_reset_clears:
  assumes "emit TOKENS H rho_drift rho_reset self = Inr (RESET_TOKEN, self')"
    and "rho_reset < reset_prob self"
  shows "bits self' = [] \<and> drift self' = 0"
  using assms
  by (auto simp: emit_def Let_def split: sum.splits if_splits)

theorem emit_reset_clears_witness:
  "emit table0 byte_sum_hash 0.9 0.5 (clock0 [0, 0, 0, 0, 0, 0, 0, 0, 1, 1, 1, 1, 1])
     = Inr (RESET_TOKEN, (clock0 [])\<lparr>window_counter := 1\<rparr>)
   \<and> bits ((clock0 [])\<lparr>window_counter := 1\<rparr>) = []
   \<and> drift ((clock0 [])\<lparr>window_counter := 1\<rparr>) = 0"
  using emit_reset_clears [of table0 byte_sum_hash "0.9" "0.5"
      "clock0 [0, 0, 0, 0, 0, 0, 0, 0, 1, 1, 1, 1, 1]" "(clock0 [])\<lparr>window_counter := 1\<rparr>"]
  by (simp add: emit_ok bits01_range clock0_def init_clock_def byte_sum_hash_def
      digest_byte0_def table0_nth0 Let_def)

text \<open>
  Claim C6. On a buffer of at least \<open>cycle_bits\<close> bits \<open>emit\<close> returns; unless a reset
  fires, the buffer afterwards is the old one without its first \<open>cycle_bits\<close> entries,
  the rest in order, so its length went down by exactly \<open>cycle_bits\<close>; and when no more
  than \<open>cycle_bits\<close> bits were queued, \<open>full\<close> is false afterwards.
\<close>

theorem emit_consumes_window:
  assumes "length TOKENS = 64" and "set (bits self) \<subseteq> {0, 1}"
    and "1 \<le> cycle_bits self" and "cycle_bits self \<le> length (bits self)"
  shows "\<exists>token self'. emit TOKENS H rho_drift rho_reset self = Inr (token, self')
           \<and> (length (bits self) = cycle_bits self \<longrightarrow> \<not> full self')
           \<and> (\<not> (token = RESET_TOKEN \<and> rho_reset < reset_prob self) \<longrightarrow>
                bits self' = drop (cycle_bits self) (bits self)
                \<and> length (bits self') = length (bits self) - cycle_bits self)"
  using assms(3,4)
  by (auto simp: emit_ok [OF assms(1) bits01_range [OF assms(2)]] Let_def full_def)

theorem emit_consumes_window_witness:
  "\<exists>token self'.
      and_then
        (run_ops table0 byte_sum_hash
           [AddBit (PyInt 1), AddBit (PyInt 0), AddBit (PyBool True), AddBit (PyInt 1),
            AddBit PyNone, AddBit (PyInt 0), AddBit (PyInt 1), AddBit (PyInt 0)]
           (init_clock 8 0.002 0.02))
        (emit table0 byte_sum_hash 0.9 0.5) = Inr (token, self')
      \<and> bits self' = [] \<and> \<not> full self'"
  using emit_consumes_window [of table0
      "(init_clock 8 0.002 0.02)\<lparr>bits := [1, 0, 1, 1, 0, 0, 1, 0]\<rparr>" byte_sum_hash "0.9" "0.5"]
  by (simp add: and_then_def add_bit_def init_clock_def emit_ok Let_def full_def)

text \<open>
  Claim C7. Two calls of \<open>emit\<close> on the same token table whose windows hold the same bits
  give the same token (or raise the same exception), whatever the two clocks' leftover
  bits, drift, parameters, counters and random draws: the token depends on the window
  alone.
\<close>

theorem emit_token_deterministic:
  assumes "take (cycle_bits clock_a) (bits clock_a) = take (cycle_bits clock_b) (bits clock_b)"
  shows "map_sum id fst (emit TOKENS H rho_drift rho_reset clock_a)
           = map_sum id fst (emit TOKENS H rho_drift' rho_reset' clock_b)"
  using assms
  by (simp add: emit_def Let_def split: sum.splits)

theorem emit_token_deterministic_witness:
  "map_sum id fst (emit table0 byte_sum_hash 0.9 0.5 (clock0 [1, 0, 1, 1, 0, 0, 1, 0, 1, 1]))
     = map_sum id fst (emit table0 byte_sum_hash 0.1 0.7
         ((init_clock 8 0.01 0.5)\<lparr>bits := [1, 0, 1, 1, 0, 0, 1, 0, 0, 0, 0], drift := 0.03,
            window_counter := 41\<rparr>))"
  using emit_token_deterministic [of "clock0 [1, 0, 1, 1, 0, 0, 1, 0, 1, 1]"
      "(init_clock 8 0.01 0.5)\<lparr>bits := [1, 0, 1, 1, 0, 0, 1, 0, 0, 0, 0], drift := 0.03,
            window_counter := 41\<rparr>"
      table0 byte_sum_hash "0.9" "0.5" "0.1" "0.7"]
  by (simp add: clock0_def init_clock_def)





text \<open>
  A run whose \<open>add_bit\<close> arguments all have a truth value, on a table of 64 entries, ends
  without an exception.
\<close>

lemma run_ops_returns:
  assumes "length TOKENS = 64"
  shows "set (bits self) \<subseteq> {0, 1} \<Longrightarrow>
         \<forall>v. AddBit v \<in> set ops \<longrightarrow> (\<exists>t. truth v = Inr t) \<Longrightarrow>
         \<exists>c. run_ops TOKENS H ops self = Inr c \<and> set (bits c) \<subseteq> {0, 1}"
proof (induction ops arbitrary: self)
  case Nil
  then show ?case by simp
next
  case (Cons op ops)
  have "\<exists>c. run_op TOKENS H op self = Inr c \<and> set (bits c) \<subseteq> {0, 1}"
  proof (cases op)
    case (AddBit v)
    then obtain t where "truth v = Inr t" using Cons.prems(2) by auto
    then show ?thesis using AddBit Cons.prems(1) by (simp add: add_bit_def and_then_def)
  next
    case (Emit rd rr)
    have "set (drop (cycle_bits self) (bits self)) \<subseteq> {0, 1}"
      using Cons.prems(1) set_drop_subset by fastforce
    then show ?thesis using Emit
      by (simp add: emit_ok [OF assms bits01_range [OF Cons.prems(1)]] Let_def)
  next
    case (ResetParams cb dr rp)
    then show ?thesis using Cons.prems(1) by (simp add: reset_params_def)
  qed
  then obtain c where c: "run_op TOKENS H op self = Inr c" "set (bits c) \<subseteq> {0, 1}"
    by blast
  from Cons.IH [OF c(2)] Cons.prems(2) show ?case using c(1) by (simp add: and_then_def)
qed




text \<open>With \<open>reset_prob\<close> at 1 every draw of \<^verbatim>\<open>random()\<close>, which is below 1, fires the reset.\<close>

lemma emit_reset_certain:
  assumes "emit TOKENS H rho_drift rho_reset self = Inr (RESET_TOKEN, self')"
    and "reset_prob self = 1" and "rho_reset < 1"
  shows "bits self' = [] \<and> drift self' = 0"
  using assms
  by (auto simp: emit_def Let_def split: sum.splits if_splits)

section \<open>The drift over call sequences\<close>

lemma and_then_Inr: "and_then m f = Inr y \<longleftrightarrow> (\<exists>x. m = Inr x \<and> f x = Inr y)"
  by (cases m) (simp_all add: and_then_def)

lemma and_then_simps [simp]: "and_then (Inr x) f = f x" "and_then (Inl e) f = Inl e"
  by (simp_all add: and_then_def)

text \<open>
  The drift bound without conditions on the table or the buffer: whenever \<open>emit\<close> returns,
  and so after the last \<open>emit\<close> of every sequence of calls on a new clock.
\<close>

lemma emit_drift_bounded_on_return:
  assumes "emit TOKENS H rho_drift rho_reset self = Inr (token, self')"
    and "0 < drift_range self"
  shows "\<bar>drift self'\<bar> \<le> 8 * drift_range self' \<and> drift_range self' = drift_range self"
  using assms clamp_abs [of "drift_range self"]
  by (auto simp: emit_def Let_def split: sum.splits if_splits)

lemma run_ops_append:
  "run_ops TOKENS H (ops @ ops') self
     = and_then (run_ops TOKENS H ops self) (run_ops TOKENS H ops')"
proof (induction ops arbitrary: self)
  case Nil
  show ?case by simp
next
  case (Cons op ops)
  show ?case by (cases "run_op TOKENS H op self") (simp_all add: Cons.IH)
qed

lemma drift_bounded_after_last_emit:
  assumes "run_ops TOKENS H (ops @ [Emit rho_drift rho_reset]) (init_clock cb dr rp) = Inr c"
    and "0 < drift_range c"
  shows "\<bar>drift c\<bar> \<le> 8 * drift_range c"
proof -
  from assms(1) obtain c0 where c0: "run_ops TOKENS H ops (init_clock cb dr rp) = Inr c0"
    and e: "map_sum id snd (emit TOKENS H rho_drift rho_reset c0) = Inr c"
    by (auto simp: run_ops_append and_then_Inr)
  from e obtain token where t: "emit TOKENS H rho_drift rho_reset c0 = Inr (token, c)"
    by (cases "emit TOKENS H rho_drift rho_reset c0") auto
  then have "drift_range c = drift_range c0"
    by (auto simp: emit_def Let_def split: sum.splits if_splits)
  with emit_drift_bounded_on_return [OF t] assms(2) show ?thesis by simp
qed

section \<open>Properties of the timers\<close>

text \<open>The cycle tick keeps the recent-bit history at 64 bits at most.\<close>

lemma on_cycle_tick_last_bits:
  assumes "on_cycle_tick TOKENS H now rho_drift rho_reset self = Inr (sigs, self')"
    and "length (last_bits self) \<le> 64"
  shows "length (last_bits self') \<le> 64"
  using assms
  by (auto simp: on_cycle_tick_def Let_def and_then_Inr
      split: option.splits if_splits prod.splits)

text \<open>
  Claim C2, as stated, fails. With 9 bits of history the hash input of the action tick is
  all 9 bits and the salt, not the most recent 8 and the salt; and with less than 8 bits
  of history the default pattern is not one fixed pattern: it is all ones for an active
  presence state and all zeros otherwise.
\<close>

theorem action_seed_last8_counterexample:
  "action_seed (ui0\<lparr>last_bits := [1, 0, 0, 0, 0, 0, 0, 0, 0]\<rparr>) ''online''
     \<noteq> drop (length [1, 0, 0, 0, 0, 0, 0, 0, 0 :: int] - 8) [1, 0, 0, 0, 0, 0, 0, 0, 0]
         @ [1, 0, 1, 0, 0, 1, 0, 1]
   \<and> action_seed ui0 ''online'' \<noteq> action_seed ui0 ''offline''"
  by (simp add: action_seed_def ui0_def ACTIVE_STATES_def)

text \<open>
  Claim C2, amended. On every action tick that shows a token, the token is the table entry
  at the hash index of this input: the whole recent-bit history when it holds at least 8
  bits, and otherwise eight copies of the current presence bit (1 for an active presence
  state, 0 otherwise); followed by the salt 1,0,1,0,0,1,0,1.
\<close>

theorem action_tick_hash_input:
  assumes "on_action_tick TOKENS H drv rho_dom rho_act n self w
             = Inr (SigActionToken token a r # sigs, self', w')"
  shows "\<exists>ws idx. watcher self = Some ws
           \<and> sha_index H ((if length (last_bits self) < 8
                             then replicate 8 (if ws \<in> ACTIVE_STATES then 1 else 0)
                             else last_bits self) @ [1, 0, 1, 0, 0, 1, 0, 1]) = Inr idx
           \<and> token = TOKENS ! idx"
proof -
  from assms obtain c ws where cw: "clock self = Some c" "watcher self = Some ws"
    by (auto simp: on_action_tick_def split: option.splits)
  from assms cw have run: "run_flag self" "\<not> paused self"
    by (auto simp: on_action_tick_def split: if_splits)
  from assms cw run obtain idx where idx: "sha_index H (action_seed self ws) = Inr idx"
    by (auto simp: on_action_tick_def and_then_Inr)
  from assms cw run idx obtain tk where tk: "getitem TOKENS (idx mod 64) = Inr tk"
    by (auto simp: on_action_tick_def and_then_Inr)
  from assms cw run idx tk have "token = tk"
    by (auto simp: on_action_tick_def and_then_Inr split: prod.splits)
  moreover have "idx mod 64 = idx" using sha_index_less [OF idx] by simp
  ultimately have "token = TOKENS ! idx"
    using tk by (auto simp: getitem_def split: if_splits)
  moreover have "action_seed self ws =
      (if length (last_bits self) < 8
       then replicate 8 (if ws \<in> ACTIVE_STATES then 1 else 0)
       else last_bits self) @ [1, 0, 1, 0, 0, 1, 0, 1]"
    by (simp add: action_seed_def)
  ultimately show ?thesis using cw idx by auto
qed

text \<open>
  A tick in Keyboard mode on a history of 9 bits: the byte sum of the 9 bits and the salt
  is 5, and the token shown is entry 5 of the table.
\<close>

lemma action_tick_nine_bits:
  "on_action_tick table0 byte_sum_hash drv_ok 0.5 0.1 0
       (ui0\<lparr>last_bits := [1, 0, 0, 0, 0, 0, 0, 0, 0], mode_index := 1\<rparr>) ()
     = Inr ([SigActionToken ''F'' ''w'' ''key:w'', SigDrift 0],
            ui0\<lparr>last_bits := [1, 0, 0, 0, 0, 0, 0, 0, 0], mode_index := 1\<rparr>, ())"
  by (simp add: on_action_tick_def ui0_def settings0_def action_seed_def
      sha_index_def getitem_def mode_names_def action_domain_def
      choose_key_action_def choice_def KEY_ACTIONS_def
      perform_key_def key_press_def io_def drv_ok_def Let_def name_map_def key_mapping_def
      known_keys_def isprintable_def clock0_def init_clock_def byte_sum_hash_def
      digest_byte0_def table0_nth5)

theorem action_tick_hash_input_witness:
  "\<exists>ws idx.
      watcher (ui0\<lparr>last_bits := [1, 0, 0, 0, 0, 0, 0, 0, 0], mode_index := 1\<rparr>) = Some ws
      \<and> sha_index byte_sum_hash ([1, 0, 0, 0, 0, 0, 0, 0, 0] @ [1, 0, 1, 0, 0, 1, 0, 1])
          = Inr idx
      \<and> ''F'' = table0 ! idx"
  using action_tick_hash_input [of table0 byte_sum_hash drv_ok "0.5" "0.1" 0
      "ui0\<lparr>last_bits := [1, 0, 0, 0, 0, 0, 0, 0, 0], mode_index := 1\<rparr>" "()"
      "''F''" "''w''" "''key:w''" "[SigDrift 0]"
      "ui0\<lparr>last_bits := [1, 0, 0, 0, 0, 0, 0, 0, 0], mode_index := 1\<rparr>" "()"]
    action_tick_nine_bits
  by simp

subsection \<open>Dispatch failures\<close>

text \<open>
  The key path: \<open>key_press\<close> has no exceptional result at all, and when the library call
  raises, its result is the skip tag with the key and the exception's class name.
\<close>

lemma key_press_skip:
  assumes "\<And>c. perform drv c w = Inl cls"
  shows "key_press drv key kd al w = (''key-skip:'' @ key @ '':'' @ cls, w)"
  by (simp add: key_press_def io_def assms Let_def)

lemma perform_key_skip:
  assumes "\<And>c. perform drv c w = Inl cls"
  shows "\<exists>key. perform_key drv action_token self w = (''key-skip:'' @ key @ '':'' @ cls, w)"
  by (auto simp: perform_key_def Let_def key_press_skip [OF assms] split: option.splits)

text \<open>
  Claim C3 holds on the key path only. The mouse path has no handler: in Mouse mode, with
  the click action chosen and a library whose calls raise PermissionError, the exception
  leaves the action tick and no skip tag is produced.
\<close>

theorem action_tick_mouse_failure_propagates:
  "on_action_tick table0 byte_sum_hash drv_denied 0.5 0.7 0 (ui0\<lparr>mode_index := 0\<rparr>) ()
     = Inl (LibraryError ''PermissionError'')"
  by (simp add: on_action_tick_def ui0_def settings0_def action_seed_def
      ACTIVE_STATES_def sha_index_def getitem_def mode_names_def action_domain_def
      choose_mouse_action_def choice_def MOUSE_TOKENS_CLICKS_def MOUSE_DIR_def
      perform_mouse_def mouse_click_def io_def drv_denied_def Let_def
      MOUSE_TOKENS_SCROLL_def MOUSE_TOKENS_DRAG_def and63_less)

subsection \<open>Choice of the domain\<close>

lemma choose_key_action_total: "\<exists>a. choose_key_action token r n = Inr a"
  by (simp add: choose_key_action_def choice_def KEY_ACTIONS_def)

text \<open>
  Claim C9. In Auto mode, when one dominance weight is 0 and the other is positive, every
  pick of the domain, whatever the random draw and however many picks follow one another,
  is the domain of the positive weight: Keyboard for a mouse weight of 0, Mouse for a key
  weight of 0.
\<close>

theorem auto_zero_weight_forces_domain:
  "(m_dom = 0 \<and> 0 < k_dom \<longrightarrow>
      (\<forall>rho \<in> set rhos. action_domain ''Auto'' m_dom k_dom rho = ''Keyboard''))
   \<and> (k_dom = 0 \<and> 0 < m_dom \<longrightarrow>
      (\<forall>rho \<in> set rhos. action_domain ''Auto'' m_dom k_dom rho = ''Mouse''))"
  by (simp add: action_domain_def)

theorem auto_zero_weight_forces_domain_witness:
  "action_domain ''Auto'' 0 100 0 = ''Keyboard''
   \<and> action_domain ''Auto'' 0 100 0.5 = ''Keyboard''
   \<and> action_domain ''Auto'' 0 100 0.999 = ''Keyboard''"
  using auto_zero_weight_forces_domain [of 0 100 "[0, 0.5, 0.999]"] by simp

text \<open>
  The same at the level of the tick: a running, unpaused session in Auto mode (mode index
  2) with a mouse weight of 0 and a positive key weight performs a key action on every
  action tick, never a mouse action, and the tick leaves the window's state as it was.
\<close>

lemma action_tick_key_path:
  assumes "clock self = Some c" and "watcher self = Some ws"
    and "run_flag self" and "\<not> paused self" and "mode_index self = 2"
    and "mouse_dom (state self) = 0" and "0 < key_dom (state self)"
    and "length TOKENS = 64" and "set (last_bits self) \<subseteq> {0, 1}"
  shows "\<exists>token a. on_action_tick TOKENS H drv rho_dom rho_act n self w
           = Inr ([SigActionToken token a (fst (perform_key drv a self w)), SigDrift (drift c)],
                  self, snd (perform_key drv a self w))
         \<and> choose_key_action token rho_act n = Inr a"
proof -
  have r: "\<forall>b \<in> set (action_seed self ws). 0 \<le> b \<and> b < 256"
    using assms(9) by (auto simp: action_seed_def Let_def)
  obtain a where a: "choose_key_action
      (TOKENS ! unat (digest_byte0 (H (map word_of_int (action_seed self ws))) AND 63))
      rho_act n = Inr a"
    using choose_key_action_total by blast
  show ?thesis
    using assms(1-8) a
      and63_less [of "digest_byte0 (H (map word_of_int (action_seed self ws)))"]
    by (simp add: on_action_tick_def sha_index_ok [OF r] getitem_def mode_names_def
        action_domain_def split_beta)
qed

end
